theory Spec2Isabelle
  imports Main
begin

section \<open>The signalling relay of \<^verbatim>\<open>src/index.js\<close>\<close>

text \<open>
  The relay keeps two process-wide tables, \<^verbatim>\<open>onlineUsers\<close> (an array of
  \<^verbatim>\<open>{userId, name, socketId}\<close> objects) and \<^verbatim>\<open>activeCalls\<close> (a JavaScript
  \<^verbatim>\<open>Map\<close>), and registers one callback per inbound socket event. Each callback is
  modelled as a function of the socket it was registered on, the payload and the state,
  returning either the exception the callback throws or the new state together with the
  list of calls it made on socket.io and on the console, in program order.
\<close>

subsection \<open>Values and payloads\<close>

text \<open>
  Identity fields are strings, or \<^verbatim>\<open>undefined\<close> when the client left them out. On
  these values \<^verbatim>\<open>===\<close> and the key comparison of \<^verbatim>\<open>Map\<close> are both plain
  equality. A falsy value is \<^verbatim>\<open>undefined\<close> or the empty string.
\<close>

datatype jsval = Undefined | Str string

fun truthy :: "jsval \<Rightarrow> bool" where
  "truthy Undefined = False"
| "truthy (Str s) = (s \<noteq> [])"

text \<open>
  An inbound payload object: \<open>d ''from''\<close> is \<^verbatim>\<open>data.from\<close>, a missing property
  reads as \<^verbatim>\<open>undefined\<close>. The payload itself may be absent (\<open>None\<close>); reading a
  property of it then throws.
\<close>

type_synonym obj = "string \<Rightarrow> jsval"

fun obj_of :: "(string \<times> jsval) list \<Rightarrow> obj" where
  "obj_of [] k = Undefined"
| "obj_of ((f, v) # fs) k = (if k = f then v else obj_of fs k)"

datatype exn = TypeError

subsection \<open>State\<close>

record user_entry =
  userId :: jsval
  name :: jsval
  socketId :: string

text \<open>
  A value of \<^verbatim>\<open>activeCalls\<close>: \<open>withUser\<close> is the property \<^verbatim>\<open>with\<close> and
  \<open>callSocketId\<close> the property \<^verbatim>\<open>socketId\<close> of the stored object.
\<close>

record call_record =
  withUser :: jsval
  callSocketId :: jsval

text \<open>
  A JavaScript \<^verbatim>\<open>Map\<close> is a list of entries in insertion order with one entry per
  key: \<^verbatim>\<open>set\<close> replaces the value of an existing key in place and appends a new
  key, \<^verbatim>\<open>delete\<close> removes the key.
\<close>

type_synonym calls = "(jsval \<times> call_record) list"

fun Map_has :: "jsval \<Rightarrow> calls \<Rightarrow> bool" where
  "Map_has k [] = False"
| "Map_has k ((k', v) # m) = (k' = k \<or> Map_has k m)"

fun Map_set :: "jsval \<Rightarrow> call_record \<Rightarrow> calls \<Rightarrow> calls" where
  "Map_set k v [] = [(k, v)]"
| "Map_set k v ((k', v') # m) = (if k' = k then (k, v) # m else (k', v') # Map_set k v m)"

fun Map_delete :: "jsval \<Rightarrow> calls \<Rightarrow> calls" where
  "Map_delete k [] = []"
| "Map_delete k ((k', v) # m) = (if k' = k then Map_delete k m else (k', v) # Map_delete k m)"

record state =
  onlineUsers :: "user_entry list"
  activeCalls :: calls

definition initial :: state where
  "initial = \<lparr>onlineUsers = [], activeCalls = []\<rparr>"

definition isBusy :: "jsval \<Rightarrow> state \<Rightarrow> bool" where
  "isBusy uid s = Map_has uid (activeCalls s)"

subsection \<open>Effects\<close>

text \<open>
  \<open>ThisSocket sid\<close> is \<^verbatim>\<open>socket.emit\<close>, \<open>Room r\<close> is \<^verbatim>\<open>io.to(r).emit\<close>,
  \<open>Everyone\<close> is \<^verbatim>\<open>io.emit\<close> and \<open>EveryoneBut sid\<close> is
  \<^verbatim>\<open>socket.broadcast.emit\<close>.
\<close>

datatype target = ThisSocket string | Room jsval | Everyone | EveryoneBut string

datatype payload = PStr string | PObj "(string \<times> jsval) list" | PUsers "user_entry list"

text \<open>
  An effect is one call of the handler on socket.io or on the console: an emission with
  its target, event name and payload, \<^verbatim>\<open>socket.join\<close>, \<^verbatim>\<open>console.log\<close> or
  \<^verbatim>\<open>console.warn\<close>. The two \<^verbatim>\<open>console.log\<close> lines are template literals that
  end with the id of the socket.
\<close>

datatype effect =
  Emit target string payload
| JoinRoom string jsval
| ConsoleLog string
| ConsoleWarn string

type_synonym result = "exn + state \<times> effect list"

subsection \<open>The handlers\<close>

definition on_connection :: "string \<Rightarrow> state \<Rightarrow> result" where
  "on_connection sid s =
     Inr (s, [ConsoleLog (''[INFO] New connection: '' @ sid),
              Emit (ThisSocket sid) ''me'' (PStr sid)])"

text \<open>
  \<^verbatim>\<open>existingUser.socketId = socket.id\<close> writes into the object that
  \<^verbatim>\<open>find\<close> returned, the first entry of the array with that \<^verbatim>\<open>userId\<close>.
\<close>

fun update_existing :: "jsval \<Rightarrow> string \<Rightarrow> user_entry list \<Rightarrow> user_entry list" where
  "update_existing uid sid [] = []"
| "update_existing uid sid (u # us) =
     (if userId u = uid then u\<lparr>socketId := sid\<rparr> # us
      else u # update_existing uid sid us)"

definition on_join :: "string \<Rightarrow> obj option \<Rightarrow> state \<Rightarrow> result" where
  "on_join sid user s =
     (case user of
        None \<Rightarrow> Inr (s, [ConsoleWarn ''[WARNING] Invalid user data on join''])
      | Some u \<Rightarrow>
          if \<not> truthy (u ''id'') then
            Inr (s, [ConsoleWarn ''[WARNING] Invalid user data on join''])
          else
            let users =
              (case List.find (\<lambda>e. userId e = u ''id'') (onlineUsers s) of
                 Some existingUser \<Rightarrow> update_existing (u ''id'') sid (onlineUsers s)
               | None \<Rightarrow>
                   onlineUsers s @
                     [\<lparr>userId = u ''id'', name = u ''name'', socketId = sid\<rparr>])
            in Inr (s\<lparr>onlineUsers := users\<rparr>,
                    [JoinRoom sid (u ''id''),
                     Emit Everyone ''online-users'' (PUsers users)]))"

text \<open>
  \<^verbatim>\<open>onlineUsers.find((user) => user.userId === data.callToUserId)\<close>: the callback
  reads \<^verbatim>\<open>data.callToUserId\<close> at each entry it visits. With the payload absent the
  read throws at the first entry; on an empty array the callback never runs and
  \<^verbatim>\<open>find\<close> returns \<^verbatim>\<open>undefined\<close>.
\<close>

fun find_callee :: "obj option \<Rightarrow> user_entry list \<Rightarrow> exn + user_entry option" where
  "find_callee data [] = Inr None"
| "find_callee None (user # users) = Inl TypeError"
| "find_callee (Some d) (user # users) =
     (if userId user = d ''callToUserId'' then Inr (Some user)
      else find_callee (Some d) users)"

definition on_callToUser :: "string \<Rightarrow> obj option \<Rightarrow> state \<Rightarrow> result" where
  "on_callToUser sid data s =
     (case find_callee data (onlineUsers s) of
        Inl e \<Rightarrow> Inl e
      | Inr None \<Rightarrow>
          Inr (s, [Emit (ThisSocket sid) ''userUnavailable''
                     (PObj [(''message'', Str ''User is offline.'')])])
      | Inr (Some callee) \<Rightarrow>
          (case data of
             None \<Rightarrow> Inl TypeError
           | Some d \<Rightarrow>
               if Map_has (d ''callToUserId'') (activeCalls s) then
                 Inr (s, [Emit (ThisSocket sid) ''userBusy''
                            (PObj [(''message'', Str ''User is currently in another call.'')]),
                          Emit (Room (Str (socketId callee))) ''incomingCallWhileBusy''
                            (PObj [(''from'', d ''from''),
                                   (''name'', d ''name''),
                                   (''email'', d ''email''),
                                   (''profilepic'', d ''profilepic'')])])
               else
                 Inr (s, [Emit (Room (Str (socketId callee))) ''callToUser''
                            (PObj [(''signal'', d ''signalData''),
                                   (''from'', d ''from''),
                                   (''name'', d ''name''),
                                   (''email'', d ''email''),
                                   (''profilepic'', d ''profilepic'')])])))"

definition on_answeredCall :: "string \<Rightarrow> obj option \<Rightarrow> state \<Rightarrow> result" where
  "on_answeredCall sid data s =
     (case data of
        None \<Rightarrow> Inl TypeError
      | Some d \<Rightarrow>
          Inr (s\<lparr>activeCalls :=
                   Map_set (d ''to'') \<lparr>withUser = d ''from'', callSocketId = d ''to''\<rparr>
                     (Map_set (d ''from'') \<lparr>withUser = d ''to'', callSocketId = Str sid\<rparr>
                        (activeCalls s))\<rparr>,
               [Emit (Room (d ''to'')) ''callAccepted''
                  (PObj [(''signal'', d ''signal''), (''from'', d ''from'')])]))"

definition on_reject_call :: "string \<Rightarrow> obj option \<Rightarrow> state \<Rightarrow> result" where
  "on_reject_call sid data s =
     (case data of
        None \<Rightarrow> Inl TypeError
      | Some d \<Rightarrow>
          Inr (s, [Emit (Room (d ''to'')) ''callRejected''
                     (PObj [(''name'', d ''name''), (''profilepic'', d ''profilepic'')])]))"

definition on_call_ended :: "string \<Rightarrow> obj option \<Rightarrow> state \<Rightarrow> result" where
  "on_call_ended sid data s =
     (case data of
        None \<Rightarrow> Inl TypeError
      | Some d \<Rightarrow>
          Inr (s\<lparr>activeCalls :=
                   Map_delete (d ''to'') (Map_delete (d ''from'') (activeCalls s))\<rparr>,
               [Emit (Room (d ''to'')) ''callEnded'' (PObj [(''name'', d ''name'')])]))"

text \<open>
  The loop \<^verbatim>\<open>for (const [key, value] of activeCalls.entries())\<close> of the disconnect
  handler. The first argument is what the iterator has still to visit, the last the map
  as it stands. The body deletes nothing but the entry under visit, so the entries ahead
  of the iterator are those of the map at the start of the loop.
\<close>

fun endAllFor :: "calls \<Rightarrow> jsval \<Rightarrow> calls \<Rightarrow> calls" where
  "endAllFor [] uid m = m"
| "endAllFor ((key, val) # rest) uid m =
     endAllFor rest uid (if withUser val = uid then Map_delete key m else m)"

definition on_disconnect :: "string \<Rightarrow> state \<Rightarrow> result" where
  "on_disconnect sid s =
     (let calls =
            (case List.find (\<lambda>u. socketId u = sid) (onlineUsers s) of
               None \<Rightarrow> activeCalls s
             | Some user \<Rightarrow>
                 (let m = Map_delete (userId user) (activeCalls s)
                  in endAllFor m (userId user) m));
          users = filter (\<lambda>user. socketId user \<noteq> sid) (onlineUsers s)
      in Inr (\<lparr>onlineUsers = users, activeCalls = calls\<rparr>,
              [Emit Everyone ''online-users'' (PUsers users),
               Emit (EveryoneBut sid) ''discounnectUser'' (PObj [(''disUser'', Str sid)]),
               ConsoleLog (''[INFO] Disconnected: '' @ sid)]))"

subsection \<open>Events and runs\<close>

datatype event =
  Connection
| Join "obj option"
| CallToUser "obj option"
| AnsweredCall "obj option"
| RejectCall "obj option"
| CallEnded "obj option"
| Disconnect

fun handle :: "string \<Rightarrow> event \<Rightarrow> state \<Rightarrow> result" where
  "handle sid Connection s = on_connection sid s"
| "handle sid (Join user) s = on_join sid user s"
| "handle sid (CallToUser data) s = on_callToUser sid data s"
| "handle sid (AnsweredCall data) s = on_answeredCall sid data s"
| "handle sid (RejectCall data) s = on_reject_call sid data s"
| "handle sid (CallEnded data) s = on_call_ended sid data s"
| "handle sid Disconnect s = on_disconnect sid s"

text \<open>
  A run handles the events one after the other, each a pair of the socket it arrives on
  and the event. An exception thrown by a callback is not caught anywhere in the file, so
  the run ends with it.
\<close>

fun run :: "(string \<times> event) list \<Rightarrow> state \<Rightarrow> result" where
  "run [] s = Inr (s, [])"
| "run ((sid, ev) # evs) s =
     (case handle sid ev s of
        Inl e \<Rightarrow> Inl e
      | Inr (s1, out1) \<Rightarrow>
          (case run evs s1 of
             Inl e \<Rightarrow> Inl e
           | Inr (s2, out2) \<Rightarrow> Inr (s2, out1 @ out2)))"

subsection \<open>Notions used to state the properties\<close>

text \<open>
  The connection on which the most recent join naming \<open>uid\<close> arrived, in a sequence of
  joins given as pairs of socket and payload; \<open>None\<close> when no join of the sequence
  names \<open>uid\<close>.
\<close>

fun lastJoin :: "jsval \<Rightarrow> (string \<times> obj option) list \<Rightarrow> string option" where
  "lastJoin uid [] = None"
| "lastJoin uid ((sid, user) # js) =
     (case lastJoin uid js of
        Some c \<Rightarrow> Some c
      | None \<Rightarrow>
          (case user of
             None \<Rightarrow> None
           | Some u \<Rightarrow> if u ''id'' = uid then Some sid else None))"

definition joinEvents :: "(string \<times> obj option) list \<Rightarrow> (string \<times> event) list" where
  "joinEvents js = map (\<lambda>(sid, user). (sid, Join user)) js"

text \<open>The connection the registry holds for \<open>uid\<close>, as \<^verbatim>\<open>find\<close> resolves it.\<close>

definition socketOf :: "jsval \<Rightarrow> user_entry list \<Rightarrow> string option" where
  "socketOf uid us = map_option socketId (List.find (\<lambda>e. userId e = uid) us)"

text \<open>
  What the join handler maintains of the registry: one entry per \<open>userId\<close>, each
  \<open>userId\<close> a value the guard of the handler lets through.
\<close>

definition registry_ok :: "user_entry list \<Rightarrow> bool" where
  "registry_ok us = (distinct (map userId us) \<and> list_all truthy (map userId us))"

section \<open>Properties\<close>

subsection \<open>The map operations\<close>

lemma Map_has_iff: "Map_has k m = (k \<in> fst ` set m)"
  by (induction m) auto

lemma Map_delete_filter: "Map_delete k m = filter (\<lambda>e. fst e \<noteq> k) m"
  by (induction m) auto

lemma Map_has_delete: "Map_has k (Map_delete k' m) = (k \<noteq> k' \<and> Map_has k m)"
  by (auto simp: Map_has_iff Map_delete_filter)

lemma Map_has_set: "Map_has k (Map_set k' v m) = (k = k' \<or> Map_has k m)"
  by (induction m) (auto split: if_splits)

lemma Map_delete_absent: "\<not> Map_has k m \<Longrightarrow> Map_delete k m = m"
  by (induction m) auto

lemma Map_delete_append: "Map_delete k (xs @ ys) = Map_delete k xs @ Map_delete k ys"
  by (simp add: Map_delete_filter)

lemma keys_Map_set: "fst ` set (Map_set k v m) = insert k (fst ` set m)"
proof -
  have "k' \<in> fst ` set (Map_set k v m) \<longleftrightarrow> k' \<in> insert k (fst ` set m)" for k'
    using Map_has_set [of k' k v m] by (simp add: Map_has_iff)
  then show ?thesis by blast
qed

text \<open>The three operations keep the keys of the map distinct.\<close>

lemma distinct_Map_set: "distinct (map fst m) \<Longrightarrow> distinct (map fst (Map_set k v m))"
proof (induction m)
  case Nil
  then show ?case by simp
next
  case (Cons e m)
  obtain k' v' where e: "e = (k', v')" by (cases e)
  from Cons e show ?case by (auto simp: keys_Map_set)
qed

lemma distinct_Map_delete: "distinct (map fst m) \<Longrightarrow> distinct (map fst (Map_delete k m))"
  by (simp add: Map_delete_filter distinct_map_filter)

subsection \<open>The call request handler\<close>

lemma find_callee_Some:
  "find_callee (Some d) us = Inr (List.find (\<lambda>user. userId user = d ''callToUserId'') us)"
  by (induction us) auto

lemma find_callee_None:
  "find_callee None us = (if us = [] then Inr None else Inl TypeError)"
  by (cases us) auto

text \<open>The handler with a payload, and without one.\<close>

lemma on_callToUser_Some:
  "on_callToUser sid (Some d) s =
     (case List.find (\<lambda>user. userId user = d ''callToUserId'') (onlineUsers s) of
        None \<Rightarrow>
          Inr (s, [Emit (ThisSocket sid) ''userUnavailable''
                     (PObj [(''message'', Str ''User is offline.'')])])
      | Some callee \<Rightarrow>
          if Map_has (d ''callToUserId'') (activeCalls s) then
            Inr (s, [Emit (ThisSocket sid) ''userBusy''
                       (PObj [(''message'', Str ''User is currently in another call.'')]),
                     Emit (Room (Str (socketId callee))) ''incomingCallWhileBusy''
                       (PObj [(''from'', d ''from''),
                              (''name'', d ''name''),
                              (''email'', d ''email''),
                              (''profilepic'', d ''profilepic'')])])
          else
            Inr (s, [Emit (Room (Str (socketId callee))) ''callToUser''
                       (PObj [(''signal'', d ''signalData''),
                              (''from'', d ''from''),
                              (''name'', d ''name''),
                              (''email'', d ''email''),
                              (''profilepic'', d ''profilepic'')])]))"
  by (simp add: on_callToUser_def find_callee_Some split: option.splits)

lemma on_callToUser_None:
  "on_callToUser sid None s =
     (if onlineUsers s = [] then
        Inr (s, [Emit (ThisSocket sid) ''userUnavailable''
                   (PObj [(''message'', Str ''User is offline.'')])])
      else Inl TypeError)"
  by (simp add: on_callToUser_def find_callee_None)

subsection \<open>The scan of the disconnect handler\<close>

lemma set_endAllFor_subset: "set (endAllFor todo uid m) \<subseteq> set m"
  by (induction todo uid m rule: endAllFor.induct) (auto simp: Map_delete_filter)

lemma endAllFor_keeps_absent: "\<not> Map_has k m \<Longrightarrow> \<not> Map_has k (endAllFor todo uid m)"
  using set_endAllFor_subset [of todo uid m] by (auto simp: Map_has_iff)

text \<open>An entry the iterator visits whose peer is \<open>uid\<close> has its key deleted for good.\<close>

lemma endAllFor_deleted:
  "(key, v) \<in> set todo \<Longrightarrow> withUser v = uid \<Longrightarrow> \<not> Map_has key (endAllFor todo uid m)"
proof (induction todo uid m rule: endAllFor.induct)
  case (1 uid m)
  then show ?case by simp
next
  case (2 key' val rest uid m)
  show ?case
  proof (cases "(key, v) = (key', val)")
    case True
    have "\<not> Map_has key (Map_delete key m)" by (simp add: Map_has_delete)
    then have "\<not> Map_has key (endAllFor rest uid (Map_delete key m))"
      by (rule endAllFor_keeps_absent)
    with True 2 show ?thesis by simp
  next
    case False
    with "2.prems" have "(key, v) \<in> set rest" by auto
    with 2 show ?thesis by simp
  qed
qed

lemma endAllFor_no_peer:
  assumes "(key, v) \<in> set (endAllFor m uid m)"
  shows "withUser v \<noteq> uid"
proof
  assume w: "withUser v = uid"
  from assms have "(key, v) \<in> set m" using set_endAllFor_subset by blast
  from endAllFor_deleted [OF this w] assms show False by (force simp: Map_has_iff)
qed

text \<open>
  On a map with distinct keys the scan removes the entries whose peer is \<open>uid\<close> and
  nothing else. The statement is generalised over the entries \<open>pre\<close> the iterator has
  passed and kept.
\<close>

lemma endAllFor_filter_aux:
  "distinct (map fst (pre @ todo)) \<Longrightarrow>
   endAllFor todo uid (pre @ todo) = pre @ filter (\<lambda>e. withUser (snd e) \<noteq> uid) todo"
proof (induction todo arbitrary: pre)
  case Nil
  then show ?case by simp
next
  case (Cons e todo)
  obtain key val where e: "e = (key, val)" by (cases e)
  show ?case
  proof (cases "withUser val = uid")
    case True
    from Cons.prems e have "\<not> Map_has key pre" and "\<not> Map_has key todo"
      by (auto simp: Map_has_iff)
    with e have "Map_delete key (pre @ e # todo) = pre @ todo"
      by (simp add: Map_delete_append Map_delete_absent)
    moreover from Cons.prems have "distinct (map fst (pre @ todo))" by simp
    ultimately show ?thesis using Cons.IH [of pre] True e by simp
  next
    case False
    from Cons.prems have "distinct (map fst ((pre @ [e]) @ todo))" by simp
    from Cons.IH [OF this] False e show ?thesis by simp
  qed
qed

lemma endAllFor_filter:
  "distinct (map fst m) \<Longrightarrow> endAllFor m uid m = filter (\<lambda>e. withUser (snd e) \<noteq> uid) m"
  using endAllFor_filter_aux [of "[]" m uid] by simp

lemma endAllFor_after_delete:
  assumes "distinct (map fst m)"
  shows "endAllFor (Map_delete U m) U (Map_delete U m) =
           filter (\<lambda>(k, v). k \<noteq> U \<and> withUser v \<noteq> U) m"
proof -
  from assms have "distinct (map fst (Map_delete U m))"
    by (rule distinct_Map_delete)
  then have "endAllFor (Map_delete U m) U (Map_delete U m) =
               filter (\<lambda>e. withUser (snd e) \<noteq> U) (Map_delete U m)"
    by (rule endAllFor_filter)
  also have "\<dots> = filter (\<lambda>e. fst e \<noteq> U \<and> withUser (snd e) \<noteq> U) m"
    by (simp add: Map_delete_filter)
  also have "\<dots> = filter (\<lambda>(k, v). k \<noteq> U \<and> withUser v \<noteq> U) m"
    by (simp add: case_prod_unfold)
  finally show ?thesis .
qed

lemma on_disconnect_found:
  assumes "List.find (\<lambda>u. socketId u = sid) (onlineUsers s) = Some user"
  shows "on_disconnect sid s =
     Inr (\<lparr>onlineUsers = filter (\<lambda>user. socketId user \<noteq> sid) (onlineUsers s),
           activeCalls =
             endAllFor (Map_delete (userId user) (activeCalls s)) (userId user)
               (Map_delete (userId user) (activeCalls s))\<rparr>,
          [Emit Everyone ''online-users''
             (PUsers (filter (\<lambda>user. socketId user \<noteq> sid) (onlineUsers s))),
           Emit (EveryoneBut sid) ''discounnectUser'' (PObj [(''disUser'', Str sid)]),
           ConsoleLog (''[INFO] Disconnected: '' @ sid)])"
  using assms by (simp add: on_disconnect_def Let_def)

text \<open>Every handler keeps the keys of the ledger distinct.\<close>

lemma on_disconnect_keeps_keys_distinct:
  assumes "distinct (map fst (activeCalls s))" and "on_disconnect sid s = Inr (s', out)"
  shows "distinct (map fst (activeCalls s'))"
proof (cases "List.find (\<lambda>u. socketId u = sid) (onlineUsers s)")
  case None
  with assms show ?thesis by (auto simp: on_disconnect_def Let_def)
next
  case (Some user)
  from on_disconnect_found [OF Some] assms(2)
  have "activeCalls s' =
          endAllFor (Map_delete (userId user) (activeCalls s)) (userId user)
            (Map_delete (userId user) (activeCalls s))"
    by auto
  with assms(1) show ?thesis
    by (simp add: endAllFor_after_delete distinct_map_filter)
qed

lemma handle_keeps_keys_distinct:
  assumes "distinct (map fst (activeCalls s))" and "handle sid ev s = Inr (s', out)"
  shows "distinct (map fst (activeCalls s'))"
proof (cases ev)
  case Connection
  with assms show ?thesis by (auto simp: on_connection_def)
next
  case (Join user)
  with assms show ?thesis by (auto simp: on_join_def Let_def split: option.splits if_splits)
next
  case (CallToUser data)
  with assms show ?thesis
    by (cases data) (auto simp: on_callToUser_Some on_callToUser_None split: option.splits if_splits)
next
  case (AnsweredCall data)
  with assms show ?thesis
    by (auto simp: on_answeredCall_def distinct_Map_set split: option.splits)
next
  case (RejectCall data)
  with assms show ?thesis by (auto simp: on_reject_call_def split: option.splits)
next
  case (CallEnded data)
  with assms show ?thesis
    by (auto simp: on_call_ended_def distinct_Map_delete split: option.splits)
next
  case Disconnect
  with assms show ?thesis using on_disconnect_keeps_keys_distinct by simp
qed

subsection \<open>The registry update\<close>

lemma map_userId_update_existing: "map userId (update_existing uid sid us) = map userId us"
  by (induction us) auto

lemma find_update_existing_same:
  "List.find (\<lambda>e. userId e = uid) us = Some e \<Longrightarrow>
   List.find (\<lambda>e. userId e = uid) (update_existing uid sid us) = Some (e\<lparr>socketId := sid\<rparr>)"
  by (induction us) (auto split: if_splits)

lemma find_update_existing_other:
  "uid' \<noteq> uid \<Longrightarrow>
   List.find (\<lambda>e. userId e = uid') (update_existing uid sid us) =
   List.find (\<lambda>e. userId e = uid') us"
  by (induction us) auto

lemma find_append_new:
  "List.find P (us @ [x]) =
     (case List.find P us of Some e \<Rightarrow> Some e | None \<Rightarrow> if P x then Some x else None)"
  by (induction us) auto

lemma socketOf_update_existing:
  "List.find (\<lambda>e. userId e = uid) us = Some e \<Longrightarrow>
   socketOf uid' (update_existing uid sid us) = (if uid' = uid then Some sid else socketOf uid' us)"
  by (simp add: socketOf_def find_update_existing_same find_update_existing_other)

lemma socketOf_append:
  "List.find (\<lambda>e. userId e = uid) us = None \<Longrightarrow>
   socketOf uid' (us @ [\<lparr>userId = uid, name = n, socketId = sid\<rparr>]) =
     (if uid' = uid then Some sid else socketOf uid' us)"
  by (auto simp: socketOf_def find_append_new split: option.splits)

lemma socketOf_entry:
  "distinct (map userId us) \<Longrightarrow> e \<in> set us \<Longrightarrow> socketOf (userId e) us = Some (socketId e)"
  by (induction us) (auto simp: socketOf_def)

lemma socketOf_Some:
  "socketOf uid us = Some c \<Longrightarrow> \<exists>e\<in>set us. userId e = uid \<and> socketId e = c"
  by (auto simp: socketOf_def find_Some_iff)

lemma on_join_valid_entry:
  assumes "truthy (u ''id'')" and "on_join sid (Some u) s = Inr (s', out)"
  shows "\<exists>e\<in>set (onlineUsers s'). userId e = u ''id'' \<and> socketId e = sid"
proof (cases "List.find (\<lambda>e. userId e = u ''id'') (onlineUsers s)")
  case None
  with assms show ?thesis by (auto simp: on_join_def Let_def)
next
  case (Some e)
  from find_update_existing_same [OF Some, of sid]
  have "e\<lparr>socketId := sid\<rparr> \<in> set (update_existing (u ''id'') sid (onlineUsers s))"
    by (auto simp: find_Some_iff)
  moreover from Some have "userId e = u ''id''" by (auto simp: find_Some_iff)
  ultimately show ?thesis using assms Some
    by (auto simp: on_join_def Let_def intro!: bexI [of _ "e\<lparr>socketId := sid\<rparr>"])
qed

text \<open>
  One join: it never throws, it keeps the registry well formed, and the connection the
  registry holds for an identity changes for the identity of the join only.
\<close>

lemma on_join_step:
  assumes "registry_ok (onlineUsers s)"
  shows "\<exists>s' out. on_join sid user s = Inr (s', out)
           \<and> registry_ok (onlineUsers s')
           \<and> (\<forall>uid. truthy uid \<longrightarrow>
                 socketOf uid (onlineUsers s') =
                   (case user of
                      None \<Rightarrow> socketOf uid (onlineUsers s)
                    | Some u \<Rightarrow>
                        if u ''id'' = uid then Some sid else socketOf uid (onlineUsers s)))"
proof (cases user)
  case None
  with assms show ?thesis by (simp add: on_join_def)
next
  case (Some u)
  show ?thesis
  proof (cases "truthy (u ''id'')")
    case False
    with Some assms show ?thesis by (auto simp: on_join_def)
  next
    case True
    show ?thesis
    proof (cases "List.find (\<lambda>e. userId e = u ''id'') (onlineUsers s)")
      case None
      then have "u ''id'' \<notin> userId ` set (onlineUsers s)"
        by (auto simp: find_None_iff)
      with assms True
      have "registry_ok (onlineUsers s @ [\<lparr>userId = u ''id'', name = u ''name'', socketId = sid\<rparr>])"
        by (simp add: registry_ok_def)
      with Some True None show ?thesis
        by (simp add: on_join_def Let_def socketOf_append)
    next
      case (Some e)
      from assms have "registry_ok (update_existing (u ''id'') sid (onlineUsers s))"
        by (simp add: registry_ok_def map_userId_update_existing)
      with \<open>user = Some u\<close> True Some show ?thesis
        by (simp add: on_join_def Let_def socketOf_update_existing)
    qed
  qed
qed

lemma run_joins:
  assumes "registry_ok (onlineUsers s)"
  shows "\<exists>s' out. run (joinEvents js) s = Inr (s', out)
           \<and> registry_ok (onlineUsers s')
           \<and> (\<forall>uid. truthy uid \<longrightarrow>
                 socketOf uid (onlineUsers s') =
                   (case lastJoin uid js of
                      Some c \<Rightarrow> Some c
                    | None \<Rightarrow> socketOf uid (onlineUsers s)))"
  using assms
proof (induction js arbitrary: s)
  case Nil
  then show ?case by (simp add: joinEvents_def)
next
  case (Cons j js)
  obtain sid user where j: "j = (sid, user)" by (cases j)
  from on_join_step [OF Cons.prems, of sid user]
  obtain s1 out1 where s1: "on_join sid user s = Inr (s1, out1)"
    and ok1: "registry_ok (onlineUsers s1)"
    and so1: "\<And>uid. truthy uid \<Longrightarrow> socketOf uid (onlineUsers s1) =
                (case user of
                   None \<Rightarrow> socketOf uid (onlineUsers s)
                 | Some u \<Rightarrow> if u ''id'' = uid then Some sid else socketOf uid (onlineUsers s))"
    by blast
  from Cons.IH [OF ok1]
  obtain s2 out2 where s2: "run (joinEvents js) s1 = Inr (s2, out2)"
    and ok2: "registry_ok (onlineUsers s2)"
    and so2: "\<And>uid. truthy uid \<Longrightarrow> socketOf uid (onlineUsers s2) =
                (case lastJoin uid js of
                   Some c \<Rightarrow> Some c
                 | None \<Rightarrow> socketOf uid (onlineUsers s1))"
    by blast
  from s1 s2 j have r: "run (joinEvents (j # js)) s = Inr (s2, out1 @ out2)"
    by (simp add: joinEvents_def)
  have "\<forall>uid. truthy uid \<longrightarrow>
          socketOf uid (onlineUsers s2) =
            (case lastJoin uid (j # js) of
               Some c \<Rightarrow> Some c
             | None \<Rightarrow> socketOf uid (onlineUsers s))"
    using so1 so2 j by (auto split: option.splits)
  with r ok2 show ?case by blast
qed

section \<open>The claims\<close>

subsection \<open>Call ledger: accept and end\<close>

text \<open>
  C1, as the code has it. After \<^verbatim>\<open>answeredCall\<close> with payload fields \<open>from\<close> and
  \<open>to\<close>, both identities are busy. A following \<^verbatim>\<open>call-ended\<close> deletes the records
  keyed by the \<open>from\<close> and \<open>to\<close> fields of its own payload and leaves the presence of
  every other record as it was, so it frees both parties of the call when its payload
  names both of them. The handler does not look the peer up in the ledger.
\<close>

theorem C1_accept_then_end_by_payload:
  "\<exists>s1 out1. on_answeredCall sid (Some d) s = Inr (s1, out1)
     \<and> isBusy (d ''from'') s1 \<and> isBusy (d ''to'') s1
     \<and> (\<forall>sid' e. \<exists>s2 out2. on_call_ended sid' (Some e) s1 = Inr (s2, out2)
           \<and> \<not> isBusy (e ''from'') s2 \<and> \<not> isBusy (e ''to'') s2
           \<and> (\<forall>k. k \<noteq> e ''from'' \<longrightarrow> k \<noteq> e ''to'' \<longrightarrow> isBusy k s2 = isBusy k s1))"
proof -
  let ?s1 = "s\<lparr>activeCalls :=
                 Map_set (d ''to'') \<lparr>withUser = d ''from'', callSocketId = d ''to''\<rparr>
                   (Map_set (d ''from'') \<lparr>withUser = d ''to'', callSocketId = Str sid\<rparr>
                      (activeCalls s))\<rparr>"
  have accepted: "\<exists>out1. on_answeredCall sid (Some d) s = Inr (?s1, out1)"
    by (simp add: on_answeredCall_def)
  have busy: "isBusy (d ''from'') ?s1 \<and> isBusy (d ''to'') ?s1"
    by (simp add: isBusy_def Map_has_set)
  have ended: "\<exists>s2 out2. on_call_ended sid' (Some e) ?s1 = Inr (s2, out2)
           \<and> \<not> isBusy (e ''from'') s2 \<and> \<not> isBusy (e ''to'') s2
           \<and> (\<forall>k. k \<noteq> e ''from'' \<longrightarrow> k \<noteq> e ''to'' \<longrightarrow> isBusy k s2 = isBusy k ?s1)"
    for sid' e
    by (simp add: on_call_ended_def isBusy_def Map_has_delete)
  from accepted busy ended show ?thesis by blast
qed

theorem C1_accept_then_end_by_payload_witness:
  "on_answeredCall ''s2'' (Some (obj_of [(''from'', Str ''alice''), (''to'', Str ''bob'')])) initial =
     Inr (\<lparr>onlineUsers = [],
           activeCalls =
             [(Str ''alice'', \<lparr>withUser = Str ''bob'', callSocketId = Str ''s2''\<rparr>),
              (Str ''bob'', \<lparr>withUser = Str ''alice'', callSocketId = Str ''bob''\<rparr>)]\<rparr>,
          [Emit (Room (Str ''bob'')) ''callAccepted''
             (PObj [(''signal'', Undefined), (''from'', Str ''alice'')])])
   \<and> on_call_ended ''s1'' (Some (obj_of [(''from'', Str ''alice''), (''to'', Str ''bob'')]))
       \<lparr>onlineUsers = [],
        activeCalls =
          [(Str ''alice'', \<lparr>withUser = Str ''bob'', callSocketId = Str ''s2''\<rparr>),
           (Str ''bob'', \<lparr>withUser = Str ''alice'', callSocketId = Str ''bob''\<rparr>)]\<rparr> =
     Inr (\<lparr>onlineUsers = [], activeCalls = []\<rparr>,
          [Emit (Room (Str ''bob'')) ''callEnded'' (PObj [(''name'', Undefined)])])"
  using C1_accept_then_end_by_payload [of "''s2''"
      "obj_of [(''from'', Str ''alice''), (''to'', Str ''bob'')]" initial]
  by (simp add: on_answeredCall_def on_call_ended_def initial_def)

text \<open>
  C1 as stated fails: alice and bob are in a call, and alice ends with a payload whose
  \<open>to\<close> names carol. Her own record is deleted, the record of her peer bob stays, and
  bob is still busy.
\<close>

theorem C1_counterexample:
  "on_answeredCall ''s2'' (Some (obj_of [(''from'', Str ''alice''), (''to'', Str ''bob'')])) initial =
     Inr (\<lparr>onlineUsers = [],
           activeCalls =
             [(Str ''alice'', \<lparr>withUser = Str ''bob'', callSocketId = Str ''s2''\<rparr>),
              (Str ''bob'', \<lparr>withUser = Str ''alice'', callSocketId = Str ''bob''\<rparr>)]\<rparr>,
          [Emit (Room (Str ''bob'')) ''callAccepted''
             (PObj [(''signal'', Undefined), (''from'', Str ''alice'')])])
   \<and> on_call_ended ''s1'' (Some (obj_of [(''from'', Str ''alice''), (''to'', Str ''carol'')]))
       \<lparr>onlineUsers = [],
        activeCalls =
          [(Str ''alice'', \<lparr>withUser = Str ''bob'', callSocketId = Str ''s2''\<rparr>),
           (Str ''bob'', \<lparr>withUser = Str ''alice'', callSocketId = Str ''bob''\<rparr>)]\<rparr> =
     Inr (\<lparr>onlineUsers = [],
           activeCalls =
             [(Str ''bob'', \<lparr>withUser = Str ''alice'', callSocketId = Str ''bob''\<rparr>)]\<rparr>,
          [Emit (Room (Str ''carol'')) ''callEnded'' (PObj [(''name'', Undefined)])])
   \<and> isBusy (Str ''bob'')
       \<lparr>onlineUsers = [],
        activeCalls =
          [(Str ''bob'', \<lparr>withUser = Str ''alice'', callSocketId = Str ''bob''\<rparr>)]\<rparr>"
  by (simp add: on_answeredCall_def on_call_ended_def initial_def isBusy_def)

subsection \<open>Registry: joins\<close>

text \<open>
  C2. Any sequence of joins, run from the empty registry, runs to the end; the registry
  then holds at most one entry per \<open>userId\<close>, the \<open>socketId\<close> of each entry is the
  connection of the most recent join naming that \<open>userId\<close>, and every identity that
  passed the guard of the handler has its entry.
\<close>

theorem C2_registry_after_joins:
  "\<exists>s out. run (joinEvents js) initial = Inr (s, out)
     \<and> distinct (map userId (onlineUsers s))
     \<and> (\<forall>e\<in>set (onlineUsers s). lastJoin (userId e) js = Some (socketId e))
     \<and> (\<forall>uid c. truthy uid \<longrightarrow> lastJoin uid js = Some c \<longrightarrow>
           (\<exists>e\<in>set (onlineUsers s). userId e = uid \<and> socketId e = c))"
proof -
  have "registry_ok (onlineUsers initial)" by (simp add: registry_ok_def initial_def)
  from run_joins [OF this, of js]
  obtain s out where r: "run (joinEvents js) initial = Inr (s, out)"
    and ok: "registry_ok (onlineUsers s)"
    and so: "\<And>uid. truthy uid \<Longrightarrow> socketOf uid (onlineUsers s) =
               (case lastJoin uid js of
                  Some c \<Rightarrow> Some c
                | None \<Rightarrow> socketOf uid (onlineUsers initial))"
    by blast
  have ini: "socketOf uid (onlineUsers initial) = None" for uid
    by (simp add: socketOf_def initial_def)
  from ok have d: "distinct (map userId (onlineUsers s))" by (simp add: registry_ok_def)
  have a: "\<forall>e\<in>set (onlineUsers s). lastJoin (userId e) js = Some (socketId e)"
  proof
    fix e assume e: "e \<in> set (onlineUsers s)"
    with ok have "truthy (userId e)" by (simp add: registry_ok_def list_all_iff)
    from so [OF this] socketOf_entry [OF d e] show "lastJoin (userId e) js = Some (socketId e)"
      by (simp add: ini split: option.splits)
  qed
  have b: "\<forall>uid c. truthy uid \<longrightarrow> lastJoin uid js = Some c \<longrightarrow>
           (\<exists>e\<in>set (onlineUsers s). userId e = uid \<and> socketId e = c)"
  proof (intro allI impI)
    fix uid c assume "truthy uid" and "lastJoin uid js = Some c"
    with so [of uid] have "socketOf uid (onlineUsers s) = Some c" by simp
    then show "\<exists>e\<in>set (onlineUsers s). userId e = uid \<and> socketId e = c"
      by (rule socketOf_Some)
  qed
  from r d a b show ?thesis by blast
qed

theorem C2_registry_after_joins_witness:
  "\<exists>out. run (joinEvents
       [(''s1'', Some (obj_of [(''id'', Str ''alice''), (''name'', Str ''Alice'')])),
        (''s2'', Some (obj_of [(''id'', Str ''bob''), (''name'', Str ''Bob'')])),
        (''s3'', Some (obj_of [(''id'', Str ''alice''), (''name'', Str ''Alice'')]))])
     initial =
   Inr (\<lparr>onlineUsers = [\<lparr>userId = Str ''alice'', name = Str ''Alice'', socketId = ''s3''\<rparr>,
                         \<lparr>userId = Str ''bob'', name = Str ''Bob'', socketId = ''s2''\<rparr>],
         activeCalls = []\<rparr>, out)"
  using C2_registry_after_joins [of
       "[(''s1'', Some (obj_of [(''id'', Str ''alice''), (''name'', Str ''Alice'')])),
         (''s2'', Some (obj_of [(''id'', Str ''bob''), (''name'', Str ''Bob'')])),
         (''s3'', Some (obj_of [(''id'', Str ''alice''), (''name'', Str ''Alice'')]))]"]
  by (simp add: joinEvents_def on_join_def initial_def Let_def)

text \<open>
  C4, as the code has it. A join whose \<open>id\<close> already has an entry overwrites the
  \<open>socketId\<close> of that entry with the new connection and inserts no second entry; the
  \<open>name\<close> of the entry stays the one of the first join, whatever name the payload
  carries.
\<close>

theorem C4_rejoin_overwrites_socket_only:
  assumes "truthy (u ''id'')"
    and "List.find (\<lambda>e. userId e = u ''id'') (onlineUsers s) = Some e"
  shows "\<exists>s'. on_join sid (Some u) s =
             Inr (s', [JoinRoom sid (u ''id''),
                       Emit Everyone ''online-users'' (PUsers (onlineUsers s'))])
           \<and> List.find (\<lambda>e. userId e = u ''id'') (onlineUsers s') =
               Some \<lparr>userId = userId e, name = name e, socketId = sid\<rparr>
           \<and> map userId (onlineUsers s') = map userId (onlineUsers s)
           \<and> activeCalls s' = activeCalls s"
proof -
  have "e\<lparr>socketId := sid\<rparr> = \<lparr>userId = userId e, name = name e, socketId = sid\<rparr>"
    by simp
  with assms show ?thesis
    using find_update_existing_same [OF assms(2), of sid]
    by (simp add: on_join_def Let_def map_userId_update_existing)
qed

theorem C4_rejoin_overwrites_socket_only_witness:
  "on_join ''s2'' (Some (obj_of [(''id'', Str ''alice''), (''name'', Str ''Alice B.'')]))
     \<lparr>onlineUsers = [\<lparr>userId = Str ''alice'', name = Str ''Alice'', socketId = ''s1''\<rparr>],
      activeCalls = []\<rparr> =
   Inr (\<lparr>onlineUsers = [\<lparr>userId = Str ''alice'', name = Str ''Alice'', socketId = ''s2''\<rparr>],
         activeCalls = []\<rparr>,
        [JoinRoom ''s2'' (Str ''alice''),
         Emit Everyone ''online-users''
           (PUsers [\<lparr>userId = Str ''alice'', name = Str ''Alice'', socketId = ''s2''\<rparr>])])"
  using C4_rejoin_overwrites_socket_only [of
      "obj_of [(''id'', Str ''alice''), (''name'', Str ''Alice B.'')]"
      "\<lparr>onlineUsers = [\<lparr>userId = Str ''alice'', name = Str ''Alice'', socketId = ''s1''\<rparr>],
        activeCalls = []\<rparr>"
      "\<lparr>userId = Str ''alice'', name = Str ''Alice'', socketId = ''s1''\<rparr>" "''s2''"]
  by (simp add: on_join_def Let_def)

text \<open>
  C4 as stated fails: alice joins with the name Alice on \<open>s1\<close> and again with the name Alice B. on
  \<open>s2\<close>; the single entry then has the new connection and the old name.
\<close>

theorem C4_counterexample:
  "run [(''s1'', Join (Some (obj_of [(''id'', Str ''alice''), (''name'', Str ''Alice'')]))),
        (''s2'', Join (Some (obj_of [(''id'', Str ''alice''), (''name'', Str ''Alice B.'')])))]
       initial =
   Inr (\<lparr>onlineUsers = [\<lparr>userId = Str ''alice'', name = Str ''Alice'', socketId = ''s2''\<rparr>],
         activeCalls = []\<rparr>,
        [JoinRoom ''s1'' (Str ''alice''),
         Emit Everyone ''online-users''
           (PUsers [\<lparr>userId = Str ''alice'', name = Str ''Alice'', socketId = ''s1''\<rparr>]),
         JoinRoom ''s2'' (Str ''alice''),
         Emit Everyone ''online-users''
           (PUsers [\<lparr>userId = Str ''alice'', name = Str ''Alice'', socketId = ''s2''\<rparr>])])"
  by (simp add: on_join_def initial_def Let_def)

text \<open>
  C7, as the code has it. A join whose payload is absent, or whose \<open>id\<close> is missing or
  empty, is dropped: the handler logs the warning and does nothing else, so registry and
  ledger are as they were and nothing is emitted. The join handler is the only one that
  checks its payload.
\<close>

theorem C7_invalid_join_dropped:
  assumes "user = None \<or> (\<exists>u. user = Some u \<and> \<not> truthy (u ''id''))"
  shows "on_join sid user s = Inr (s, [ConsoleWarn ''[WARNING] Invalid user data on join''])"
  using assms by (auto simp: on_join_def)

theorem C7_invalid_join_dropped_witness:
  "on_join ''s1'' None initial =
     Inr (initial, [ConsoleWarn ''[WARNING] Invalid user data on join''])
   \<and> on_join ''s1'' (Some (obj_of [(''name'', Str ''Alice'')])) initial =
       Inr (initial, [ConsoleWarn ''[WARNING] Invalid user data on join''])
   \<and> on_join ''s1'' (Some (obj_of [(''id'', Str []), (''name'', Str ''Alice'')])) initial =
       Inr (initial, [ConsoleWarn ''[WARNING] Invalid user data on join''])"
  using C7_invalid_join_dropped [of None "''s1''" initial]
    C7_invalid_join_dropped [of "Some (obj_of [(''name'', Str ''Alice'')])" "''s1''" initial]
    C7_invalid_join_dropped
      [of "Some (obj_of [(''id'', Str []), (''name'', Str ''Alice'')])" "''s1''" initial]
  by simp

text \<open>
  C7 as stated fails for the other events: an \<^verbatim>\<open>answeredCall\<close> whose payload has no
  \<open>from\<close> is not dropped. It logs nothing, emits \<^verbatim>\<open>callAccepted\<close> and stores two
  records in the ledger, one of them under the key \<^verbatim>\<open>undefined\<close>.
\<close>

theorem C7_counterexample:
  "on_answeredCall ''s1'' (Some (obj_of [(''to'', Str ''bob''), (''signal'', Str ''sdp'')]))
     \<lparr>onlineUsers = [], activeCalls = []\<rparr> =
   Inr (\<lparr>onlineUsers = [],
         activeCalls =
           [(Undefined, \<lparr>withUser = Str ''bob'', callSocketId = Str ''s1''\<rparr>),
            (Str ''bob'', \<lparr>withUser = Undefined, callSocketId = Str ''bob''\<rparr>)]\<rparr>,
        [Emit (Room (Str ''bob'')) ''callAccepted''
           (PObj [(''signal'', Str ''sdp''), (''from'', Undefined)])])"
  by (simp add: on_answeredCall_def)

subsection \<open>Call requests\<close>

text \<open>
  C5. A call request whose \<^verbatim>\<open>callToUserId\<close> has no entry in the registry makes the
  relay emit one \<^verbatim>\<open>userUnavailable\<close> event on the requesting socket and do nothing
  else: no other effect, and registry and ledger as they were.
\<close>

theorem C5_callee_absent:
  assumes "\<forall>u\<in>set (onlineUsers s). userId u \<noteq> d ''callToUserId''"
  shows "on_callToUser sid (Some d) s =
           Inr (s, [Emit (ThisSocket sid) ''userUnavailable''
                      (PObj [(''message'', Str ''User is offline.'')])])"
proof -
  from assms have "List.find (\<lambda>user. userId user = d ''callToUserId'') (onlineUsers s) = None"
    by (simp add: find_None_iff)
  then show ?thesis by (simp add: on_callToUser_Some)
qed

theorem C5_callee_absent_witness:
  "on_callToUser ''s1''
     (Some (obj_of [(''callToUserId'', Str ''carol''), (''from'', Str ''alice'')]))
     \<lparr>onlineUsers = [\<lparr>userId = Str ''bob'', name = Str ''Bob'', socketId = ''s2''\<rparr>],
      activeCalls = []\<rparr> =
   Inr (\<lparr>onlineUsers = [\<lparr>userId = Str ''bob'', name = Str ''Bob'', socketId = ''s2''\<rparr>],
         activeCalls = []\<rparr>,
        [Emit (ThisSocket ''s1'') ''userUnavailable''
           (PObj [(''message'', Str ''User is offline.'')])])"
  using C5_callee_absent [of
     "\<lparr>onlineUsers = [\<lparr>userId = Str ''bob'', name = Str ''Bob'', socketId = ''s2''\<rparr>],
       activeCalls = []\<rparr>"
     "obj_of [(''callToUserId'', Str ''carol''), (''from'', Str ''alice'')]" "''s1''"]
  by simp

text \<open>
  C6. A call request whose \<^verbatim>\<open>callToUserId\<close> is registered and busy makes the relay
  emit \<^verbatim>\<open>userBusy\<close> on the requesting socket and then
  \<^verbatim>\<open>incomingCallWhileBusy\<close>, carrying the \<open>from\<close>, \<open>name\<close>, \<open>email\<close> and
  \<open>profilepic\<close> of the request, to the connection the registry holds for the callee;
  registry and ledger are as they were.
\<close>

theorem C6_callee_busy:
  assumes "List.find (\<lambda>user. userId user = d ''callToUserId'') (onlineUsers s) = Some callee"
    and "isBusy (d ''callToUserId'') s"
  shows "on_callToUser sid (Some d) s =
           Inr (s, [Emit (ThisSocket sid) ''userBusy''
                      (PObj [(''message'', Str ''User is currently in another call.'')]),
                    Emit (Room (Str (socketId callee))) ''incomingCallWhileBusy''
                      (PObj [(''from'', d ''from''),
                             (''name'', d ''name''),
                             (''email'', d ''email''),
                             (''profilepic'', d ''profilepic'')])])"
  using assms by (simp add: on_callToUser_Some isBusy_def)

theorem C6_callee_busy_witness:
  "on_callToUser ''s1''
     (Some (obj_of [(''callToUserId'', Str ''bob''), (''from'', Str ''alice''),
                    (''name'', Str ''Alice''), (''email'', Str ''alice@example.org'')]))
     \<lparr>onlineUsers = [\<lparr>userId = Str ''bob'', name = Str ''Bob'', socketId = ''s2''\<rparr>],
      activeCalls = [(Str ''bob'', \<lparr>withUser = Str ''carol'', callSocketId = Str ''s2''\<rparr>),
                     (Str ''carol'', \<lparr>withUser = Str ''bob'', callSocketId = Str ''carol''\<rparr>)]\<rparr> =
   Inr (\<lparr>onlineUsers = [\<lparr>userId = Str ''bob'', name = Str ''Bob'', socketId = ''s2''\<rparr>],
         activeCalls = [(Str ''bob'', \<lparr>withUser = Str ''carol'', callSocketId = Str ''s2''\<rparr>),
                        (Str ''carol'', \<lparr>withUser = Str ''bob'', callSocketId = Str ''carol''\<rparr>)]\<rparr>,
        [Emit (ThisSocket ''s1'') ''userBusy''
           (PObj [(''message'', Str ''User is currently in another call.'')]),
         Emit (Room (Str ''s2'')) ''incomingCallWhileBusy''
           (PObj [(''from'', Str ''alice''),
                  (''name'', Str ''Alice''),
                  (''email'', Str ''alice@example.org''),
                  (''profilepic'', Undefined)])])"
  using C6_callee_busy [of
     "obj_of [(''callToUserId'', Str ''bob''), (''from'', Str ''alice''),
              (''name'', Str ''Alice''), (''email'', Str ''alice@example.org'')]"
     "\<lparr>onlineUsers = [\<lparr>userId = Str ''bob'', name = Str ''Bob'', socketId = ''s2''\<rparr>],
       activeCalls = [(Str ''bob'', \<lparr>withUser = Str ''carol'', callSocketId = Str ''s2''\<rparr>),
                      (Str ''carol'', \<lparr>withUser = Str ''bob'', callSocketId = Str ''carol''\<rparr>)]\<rparr>"
     "\<lparr>userId = Str ''bob'', name = Str ''Bob'', socketId = ''s2''\<rparr>" "''s1''"]
  by (simp add: isBusy_def)

text \<open>
  C9. The call request handler changes neither table: whenever it returns, with the callee
  absent, busy or free, registry and ledger are what they were. It returns for every
  payload that is present. Without a payload it returns, with the registry and ledger it
  was given, when the registry is empty, and otherwise throws from the callback of
  \<^verbatim>\<open>find\<close>, the first statement of the handler.
\<close>

theorem C9_callToUser_frame:
  "(\<exists>out. on_callToUser sid (Some d) s = Inr (s, out)) \<and>
   on_callToUser sid None s =
     (if onlineUsers s = [] then
        Inr (s, [Emit (ThisSocket sid) ''userUnavailable''
                   (PObj [(''message'', Str ''User is offline.'')])])
      else Inl TypeError) \<and>
   (\<forall>data s' out. on_callToUser sid data s = Inr (s', out) \<longrightarrow>
      onlineUsers s' = onlineUsers s \<and> activeCalls s' = activeCalls s)"
proof -
  have returns: "\<exists>out. on_callToUser sid (Some d) s = Inr (s, out)"
  proof (cases "List.find (\<lambda>user. userId user = d ''callToUserId'') (onlineUsers s)")
    case None
    then show ?thesis by (simp add: on_callToUser_Some)
  next
    case (Some callee)
    then show ?thesis by (cases "Map_has (d ''callToUserId'') (activeCalls s)")
        (simp_all add: on_callToUser_Some)
  qed
  have frame: "onlineUsers s' = onlineUsers s \<and> activeCalls s' = activeCalls s"
    if r: "on_callToUser sid data s = Inr (s', out)" for data s' out
  proof (cases data)
    case None
    with r have "s' = s"
      by (auto simp: on_callToUser_None split: if_splits)
    then show ?thesis by simp
  next
    case (Some d')
    with r have "s' = s"
      by (auto simp: on_callToUser_Some split: option.splits if_splits)
    then show ?thesis by simp
  qed
  from returns frame on_callToUser_None [of sid s] show ?thesis by blast
qed

text \<open>
  The witness has a request for a registered, free callee, and a request without payload
  on the empty registry.
\<close>

theorem C9_callToUser_frame_witness:
  "(\<exists>out. on_callToUser ''s1''
       (Some (obj_of [(''callToUserId'', Str ''bob''), (''from'', Str ''alice'')]))
       \<lparr>onlineUsers = [\<lparr>userId = Str ''bob'', name = Str ''Bob'', socketId = ''s2''\<rparr>],
        activeCalls = []\<rparr> =
     Inr (\<lparr>onlineUsers = [\<lparr>userId = Str ''bob'', name = Str ''Bob'', socketId = ''s2''\<rparr>],
           activeCalls = []\<rparr>, out))
   \<and> on_callToUser ''s1'' None \<lparr>onlineUsers = [], activeCalls = []\<rparr> =
       Inr (\<lparr>onlineUsers = [], activeCalls = []\<rparr>,
            [Emit (ThisSocket ''s1'') ''userUnavailable''
               (PObj [(''message'', Str ''User is offline.'')])])
   \<and> on_callToUser ''s1'' None
       \<lparr>onlineUsers = [\<lparr>userId = Str ''bob'', name = Str ''Bob'', socketId = ''s2''\<rparr>],
        activeCalls = []\<rparr> = Inl TypeError"
  using C9_callToUser_frame [of "''s1''"
      "obj_of [(''callToUserId'', Str ''bob''), (''from'', Str ''alice'')]"
      "\<lparr>onlineUsers = [\<lparr>userId = Str ''bob'', name = Str ''Bob'', socketId = ''s2''\<rparr>],
        activeCalls = []\<rparr>"]
    C9_callToUser_frame [of "''s1''" "obj_of []" "\<lparr>onlineUsers = [], activeCalls = []\<rparr>"]
  by simp

subsection \<open>Disconnect\<close>

text \<open>
  What the disconnect handler does for the user it resolves, the first registry entry
  with the \<open>socketId\<close> of the closing connection: in every state no record of that user
  and no record naming it as peer is left. The handler deletes no other record: on a
  ledger with one record per key, what is left is the ledger without the record of the
  user and without the records whose peer it is.
\<close>

lemma on_disconnect_clears_resolved_user:
  assumes "List.find (\<lambda>u. socketId u = sid) (onlineUsers s) = Some user"
  shows "\<exists>s' out. on_disconnect sid s = Inr (s', out)
           \<and> \<not> isBusy (userId user) s'
           \<and> (\<forall>key v. (key, v) \<in> set (activeCalls s') \<longrightarrow> withUser v \<noteq> userId user)
           \<and> set (activeCalls s') \<subseteq> set (activeCalls s)
           \<and> (distinct (map fst (activeCalls s)) \<longrightarrow>
                activeCalls s' =
                  filter (\<lambda>(k, v). k \<noteq> userId user \<and> withUser v \<noteq> userId user)
                    (activeCalls s))"
proof -
  let ?U = "userId user"
  let ?m = "Map_delete ?U (activeCalls s)"
  let ?c = "endAllFor ?m ?U ?m"
  let ?s' = "\<lparr>onlineUsers = filter (\<lambda>user. socketId user \<noteq> sid) (onlineUsers s),
             activeCalls = ?c\<rparr>"
  have "\<not> Map_has ?U ?m" by (simp add: Map_has_delete)
  then have "\<not> Map_has ?U ?c" by (rule endAllFor_keeps_absent)
  then have 1: "\<not> isBusy ?U ?s'" by (simp add: isBusy_def)
  have 2: "\<forall>key v. (key, v) \<in> set (activeCalls ?s') \<longrightarrow> withUser v \<noteq> ?U"
    using endAllFor_no_peer [of _ _ ?m ?U] by simp
  have "set ?c \<subseteq> set ?m" by (rule set_endAllFor_subset)
  also have "\<dots> \<subseteq> set (activeCalls s)" by (simp add: Map_delete_filter)
  finally have 3: "set (activeCalls ?s') \<subseteq> set (activeCalls s)" by simp
  have 4: "distinct (map fst (activeCalls s)) \<longrightarrow>
             activeCalls ?s' =
               filter (\<lambda>(k, v). k \<noteq> ?U \<and> withUser v \<noteq> ?U) (activeCalls s)"
    by (simp add: endAllFor_after_delete)
  from on_disconnect_found [OF assms] 1 2 3 4 show ?thesis by blast
qed

text \<open>
  A disconnect in the middle of a call, on a connection with one registry entry: alice,
  on \<open>s1\<close>, is in a call with bob while carol and dave are in another.
\<close>

lemma on_disconnect_clears_resolved_user_example:
  "on_disconnect ''s1''
     \<lparr>onlineUsers = [\<lparr>userId = Str ''alice'', name = Str ''Alice'', socketId = ''s1''\<rparr>,
                     \<lparr>userId = Str ''bob'', name = Str ''Bob'', socketId = ''s2''\<rparr>],
      activeCalls = [(Str ''alice'', \<lparr>withUser = Str ''bob'', callSocketId = Str ''s1''\<rparr>),
                     (Str ''bob'', \<lparr>withUser = Str ''alice'', callSocketId = Str ''bob''\<rparr>),
                     (Str ''carol'', \<lparr>withUser = Str ''dave'', callSocketId = Str ''s3''\<rparr>)]\<rparr> =
   Inr (\<lparr>onlineUsers = [\<lparr>userId = Str ''bob'', name = Str ''Bob'', socketId = ''s2''\<rparr>],
         activeCalls = [(Str ''carol'', \<lparr>withUser = Str ''dave'', callSocketId = Str ''s3''\<rparr>)]\<rparr>,
        [Emit Everyone ''online-users''
           (PUsers [\<lparr>userId = Str ''bob'', name = Str ''Bob'', socketId = ''s2''\<rparr>]),
         Emit (EveryoneBut ''s1'') ''discounnectUser'' (PObj [(''disUser'', Str ''s1'')]),
         ConsoleLog ''[INFO] Disconnected: s1''])"
  by (simp add: on_disconnect_def Let_def)

text \<open>
  C3. After a disconnect of user U no ledger record naming U as peer is to remain for any
  other user. The code does not keep this for every sequence of events. The connection
  \<open>s1\<close> joins as alice and then as alice2, carol joins on \<open>s3\<close> and accepts a call
  with alice2, and \<open>s1\<close> disconnects. The handler resolves the connection to alice, its
  first registry entry, and reconciles the ledger for alice only, while the filter that
  follows removes the entries of alice and of alice2 from the registry. The record of carol
  naming alice2 as peer, and the record of alice2, are still in the ledger.
\<close>

theorem C3_disconnect_second_identity:
  "(\<exists>out.
      run [(''s1'', Join (Some (obj_of [(''id'', Str ''alice''), (''name'', Str ''Alice'')]))),
           (''s1'', Join (Some (obj_of [(''id'', Str ''alice2''), (''name'', Str ''Alice'')]))),
           (''s3'', Join (Some (obj_of [(''id'', Str ''carol''), (''name'', Str ''Carol'')]))),
           (''s3'', AnsweredCall (Some (obj_of [(''from'', Str ''carol''), (''to'', Str ''alice2'')])))]
          initial =
      Inr (\<lparr>onlineUsers =
              [\<lparr>userId = Str ''alice'', name = Str ''Alice'', socketId = ''s1''\<rparr>,
               \<lparr>userId = Str ''alice2'', name = Str ''Alice'', socketId = ''s1''\<rparr>,
               \<lparr>userId = Str ''carol'', name = Str ''Carol'', socketId = ''s3''\<rparr>],
            activeCalls =
              [(Str ''carol'', \<lparr>withUser = Str ''alice2'', callSocketId = Str ''s3''\<rparr>),
               (Str ''alice2'', \<lparr>withUser = Str ''carol'', callSocketId = Str ''alice2''\<rparr>)]\<rparr>,
           out))
   \<and> on_disconnect ''s1''
       \<lparr>onlineUsers =
          [\<lparr>userId = Str ''alice'', name = Str ''Alice'', socketId = ''s1''\<rparr>,
           \<lparr>userId = Str ''alice2'', name = Str ''Alice'', socketId = ''s1''\<rparr>,
           \<lparr>userId = Str ''carol'', name = Str ''Carol'', socketId = ''s3''\<rparr>],
        activeCalls =
          [(Str ''carol'', \<lparr>withUser = Str ''alice2'', callSocketId = Str ''s3''\<rparr>),
           (Str ''alice2'', \<lparr>withUser = Str ''carol'', callSocketId = Str ''alice2''\<rparr>)]\<rparr> =
     Inr (\<lparr>onlineUsers =
             [\<lparr>userId = Str ''carol'', name = Str ''Carol'', socketId = ''s3''\<rparr>],
           activeCalls =
             [(Str ''carol'', \<lparr>withUser = Str ''alice2'', callSocketId = Str ''s3''\<rparr>),
              (Str ''alice2'', \<lparr>withUser = Str ''carol'', callSocketId = Str ''alice2''\<rparr>)]\<rparr>,
          [Emit Everyone ''online-users''
             (PUsers [\<lparr>userId = Str ''carol'', name = Str ''Carol'', socketId = ''s3''\<rparr>]),
           Emit (EveryoneBut ''s1'') ''discounnectUser'' (PObj [(''disUser'', Str ''s1'')]),
           ConsoleLog ''[INFO] Disconnected: s1''])"
  by (simp add: on_join_def on_answeredCall_def on_disconnect_def initial_def Let_def)

text \<open>
  C10. A disconnect of a connection that no registry entry carries leaves ledger and
  registry as they were, and still broadcasts the online users to everyone and
  \<^verbatim>\<open>discounnectUser\<close>, with the connection handle itself, to everyone else.
\<close>

theorem C10_disconnect_never_joined:
  assumes "\<forall>u\<in>set (onlineUsers s). socketId u \<noteq> sid"
  shows "on_disconnect sid s =
           Inr (s, [Emit Everyone ''online-users'' (PUsers (onlineUsers s)),
                    Emit (EveryoneBut sid) ''discounnectUser'' (PObj [(''disUser'', Str sid)]),
                    ConsoleLog (''[INFO] Disconnected: '' @ sid)])"
proof -
  from assms have f: "List.find (\<lambda>u. socketId u = sid) (onlineUsers s) = None"
    by (simp add: find_None_iff)
  from assms have g: "filter (\<lambda>user. socketId user \<noteq> sid) (onlineUsers s) = onlineUsers s"
    by (simp add: filter_id_conv)
  show ?thesis by (simp add: on_disconnect_def f g Let_def)
qed

theorem C10_disconnect_never_joined_witness:
  "on_disconnect ''s9''
     \<lparr>onlineUsers = [\<lparr>userId = Str ''bob'', name = Str ''Bob'', socketId = ''s2''\<rparr>],
      activeCalls = [(Str ''bob'', \<lparr>withUser = Str ''carol'', callSocketId = Str ''s2''\<rparr>)]\<rparr> =
   Inr (\<lparr>onlineUsers = [\<lparr>userId = Str ''bob'', name = Str ''Bob'', socketId = ''s2''\<rparr>],
         activeCalls = [(Str ''bob'', \<lparr>withUser = Str ''carol'', callSocketId = Str ''s2''\<rparr>)]\<rparr>,
        [Emit Everyone ''online-users''
           (PUsers [\<lparr>userId = Str ''bob'', name = Str ''Bob'', socketId = ''s2''\<rparr>]),
         Emit (EveryoneBut ''s9'') ''discounnectUser'' (PObj [(''disUser'', Str ''s9'')]),
         ConsoleLog ''[INFO] Disconnected: s9''])"
  using C10_disconnect_never_joined [of
     "\<lparr>onlineUsers = [\<lparr>userId = Str ''bob'', name = Str ''Bob'', socketId = ''s2''\<rparr>],
       activeCalls = [(Str ''bob'', \<lparr>withUser = Str ''carol'', callSocketId = Str ''s2''\<rparr>)]\<rparr>"
     "''s9''"]
  by simp

subsection \<open>The broadcast of the online users\<close>

text \<open>
  C8. Whatever the event, an \<^verbatim>\<open>online-users\<close> emission of its handler goes to
  everyone and carries the registry as the handler leaves it. Every disconnect makes the
  emission, and the list it carries has no entry of the closed connection; every join that
  passes the guard makes it, and the list has the entry of the joining identity with the
  joining connection.
\<close>

theorem C8_online_users_snapshot:
  assumes "handle sid ev s = Inr (s', out)"
  shows "(\<forall>t p. Emit t ''online-users'' p \<in> set out \<longrightarrow>
            t = Everyone \<and> p = PUsers (onlineUsers s'))
       \<and> (ev = Disconnect \<longrightarrow>
            Emit Everyone ''online-users'' (PUsers (onlineUsers s')) \<in> set out
            \<and> (\<forall>e\<in>set (onlineUsers s'). socketId e \<noteq> sid))
       \<and> (\<forall>u. ev = Join (Some u) \<and> truthy (u ''id'') \<longrightarrow>
            Emit Everyone ''online-users'' (PUsers (onlineUsers s')) \<in> set out
            \<and> (\<exists>e\<in>set (onlineUsers s'). userId e = u ''id'' \<and> socketId e = sid))"
proof -
  have 1: "\<forall>t p. Emit t ''online-users'' p \<in> set out \<longrightarrow>
            t = Everyone \<and> p = PUsers (onlineUsers s')"
  proof (cases ev)
    case (CallToUser data)
    with assms show ?thesis
      by (cases data)
         (auto simp: on_callToUser_Some on_callToUser_None split: option.splits if_splits)
  qed (use assms in \<open>auto simp: on_connection_def on_join_def on_answeredCall_def
          on_reject_call_def on_call_ended_def on_disconnect_def Let_def
          split: option.splits if_splits\<close>)
  have 2: "ev = Disconnect \<longrightarrow>
            Emit Everyone ''online-users'' (PUsers (onlineUsers s')) \<in> set out
            \<and> (\<forall>e\<in>set (onlineUsers s'). socketId e \<noteq> sid)"
    using assms by (auto simp: on_disconnect_def Let_def)
  have 3: "\<forall>u. ev = Join (Some u) \<and> truthy (u ''id'') \<longrightarrow>
            Emit Everyone ''online-users'' (PUsers (onlineUsers s')) \<in> set out
            \<and> (\<exists>e\<in>set (onlineUsers s'). userId e = u ''id'' \<and> socketId e = sid)"
  proof (intro allI impI, elim conjE)
    fix u assume ev: "ev = Join (Some u)" and tr: "truthy (u ''id'')"
    with assms have j: "on_join sid (Some u) s = Inr (s', out)" by simp
    from on_join_valid_entry [OF tr j]
    have "\<exists>e\<in>set (onlineUsers s'). userId e = u ''id'' \<and> socketId e = sid" .
    moreover from j tr have "Emit Everyone ''online-users'' (PUsers (onlineUsers s')) \<in> set out"
      by (auto simp: on_join_def Let_def)
    ultimately show "Emit Everyone ''online-users'' (PUsers (onlineUsers s')) \<in> set out
            \<and> (\<exists>e\<in>set (onlineUsers s'). userId e = u ''id'' \<and> socketId e = sid)"
      by simp
  qed
  from 1 2 3 show ?thesis by blast
qed

theorem C8_online_users_snapshot_witness:
  "handle ''s1'' Disconnect
     \<lparr>onlineUsers = [\<lparr>userId = Str ''alice'', name = Str ''Alice'', socketId = ''s1''\<rparr>,
                     \<lparr>userId = Str ''bob'', name = Str ''Bob'', socketId = ''s2''\<rparr>],
      activeCalls = []\<rparr> =
   Inr (\<lparr>onlineUsers = [\<lparr>userId = Str ''bob'', name = Str ''Bob'', socketId = ''s2''\<rparr>],
         activeCalls = []\<rparr>,
        [Emit Everyone ''online-users''
           (PUsers [\<lparr>userId = Str ''bob'', name = Str ''Bob'', socketId = ''s2''\<rparr>]),
         Emit (EveryoneBut ''s1'') ''discounnectUser'' (PObj [(''disUser'', Str ''s1'')]),
         ConsoleLog ''[INFO] Disconnected: s1''])
   \<and> handle ''s3'' (Join (Some (obj_of [(''id'', Str ''carol''), (''name'', Str ''Carol'')])))
       \<lparr>onlineUsers = [\<lparr>userId = Str ''bob'', name = Str ''Bob'', socketId = ''s2''\<rparr>],
        activeCalls = []\<rparr> =
     Inr (\<lparr>onlineUsers = [\<lparr>userId = Str ''bob'', name = Str ''Bob'', socketId = ''s2''\<rparr>,
                           \<lparr>userId = Str ''carol'', name = Str ''Carol'', socketId = ''s3''\<rparr>],
           activeCalls = []\<rparr>,
          [JoinRoom ''s3'' (Str ''carol''),
           Emit Everyone ''online-users''
             (PUsers [\<lparr>userId = Str ''bob'', name = Str ''Bob'', socketId = ''s2''\<rparr>,
                      \<lparr>userId = Str ''carol'', name = Str ''Carol'', socketId = ''s3''\<rparr>])])"
  using C8_online_users_snapshot [of "''s1''" Disconnect
     "\<lparr>onlineUsers = [\<lparr>userId = Str ''alice'', name = Str ''Alice'', socketId = ''s1''\<rparr>,
                      \<lparr>userId = Str ''bob'', name = Str ''Bob'', socketId = ''s2''\<rparr>],
       activeCalls = []\<rparr>"
     "\<lparr>onlineUsers = [\<lparr>userId = Str ''bob'', name = Str ''Bob'', socketId = ''s2''\<rparr>],
       activeCalls = []\<rparr>"
     "[Emit Everyone ''online-users''
         (PUsers [\<lparr>userId = Str ''bob'', name = Str ''Bob'', socketId = ''s2''\<rparr>]),
       Emit (EveryoneBut ''s1'') ''discounnectUser'' (PObj [(''disUser'', Str ''s1'')]),
       ConsoleLog ''[INFO] Disconnected: s1'']"]
  by (simp add: on_disconnect_def on_join_def Let_def)

end
